theory Spec2Isabelle
  imports Complex_Main
begin

section \<open>Data stream anomaly detection: the statistical core and its driver\<close>

text \<open>
  A shallow embedding of \<^verbatim>\<open>main.py\<close>: the stream generator
  \<^verbatim>\<open>simulate_data_stream\<close>, the three statistics \<^verbatim>\<open>moving_average\<close>,
  \<^verbatim>\<open>standard_deviation\<close>, \<^verbatim>\<open>z_score\<close>, and the timer callback
  \<^verbatim>\<open>update\<close> of \<^verbatim>\<open>detect_anomalies_with_visualization\<close>.

  A float is a real number, an infinity or NaN; a result at or beyond the overflow
  threshold of IEEE doubles is an infinity. Rounding inside that range, signed zeros and
  underflow are not modelled, so the properties below give the exact value of a float
  result only where the computation in doubles is exact. Python's unbounded integers are
  kept apart from floats, because converting or dividing them can raise.
\<close>

subsection \<open>Floats\<close>

datatype pynum = Num real | NaN | PosInf | NegInf

text \<open>
  A real result becomes an infinity when round-to-nearest would take it past the largest
  double, that is from \<open>2^1024 - 2^970\<close> on.
\<close>

definition overflow_threshold :: real where
  "overflow_threshold = 2 ^ 1024 - 2 ^ 970"

definition fl :: "real \<Rightarrow> pynum" where
  "fl x = (if overflow_threshold \<le> x then PosInf
           else if x \<le> - overflow_threshold then NegInf
           else Num x)"

text \<open>Comparisons of floats: false as soon as one side is NaN.\<close>

fun py_gt :: "pynum \<Rightarrow> pynum \<Rightarrow> bool" where
  "py_gt NaN _ = False"
| "py_gt _ NaN = False"
| "py_gt (Num a) (Num b) = (a > b)"
| "py_gt PosInf PosInf = False"
| "py_gt PosInf _ = True"
| "py_gt _ PosInf = False"
| "py_gt NegInf _ = False"
| "py_gt _ NegInf = True"

fun py_le :: "pynum \<Rightarrow> pynum \<Rightarrow> bool" where
  "py_le NaN _ = False"
| "py_le _ NaN = False"
| "py_le (Num a) (Num b) = (a \<le> b)"
| "py_le NegInf _ = True"
| "py_le _ PosInf = True"
| "py_le PosInf _ = False"
| "py_le _ NegInf = False"

fun py_abs :: "pynum \<Rightarrow> pynum" where
  "py_abs (Num a) = Num \<bar>a\<bar>"
| "py_abs NaN = NaN"
| "py_abs PosInf = PosInf"
| "py_abs NegInf = PosInf"

fun fl_neg :: "pynum \<Rightarrow> pynum" where
  "fl_neg (Num a) = Num (- a)"
| "fl_neg NaN = NaN"
| "fl_neg PosInf = NegInf"
| "fl_neg NegInf = PosInf"

fun fl_add :: "pynum \<Rightarrow> pynum \<Rightarrow> pynum" where
  "fl_add NaN _ = NaN"
| "fl_add _ NaN = NaN"
| "fl_add (Num a) (Num b) = fl (a + b)"
| "fl_add PosInf NegInf = NaN"
| "fl_add NegInf PosInf = NaN"
| "fl_add PosInf _ = PosInf"
| "fl_add _ PosInf = PosInf"
| "fl_add NegInf _ = NegInf"
| "fl_add _ NegInf = NegInf"

definition fl_sub :: "pynum \<Rightarrow> pynum \<Rightarrow> pynum" where
  "fl_sub a b = fl_add a (fl_neg b)"

fun fl_mul :: "pynum \<Rightarrow> pynum \<Rightarrow> pynum" where
  "fl_mul NaN _ = NaN"
| "fl_mul _ NaN = NaN"
| "fl_mul (Num a) (Num b) = fl (a * b)"
| "fl_mul PosInf (Num b) = (if b = 0 then NaN else if 0 < b then PosInf else NegInf)"
| "fl_mul NegInf (Num b) = (if b = 0 then NaN else if 0 < b then NegInf else PosInf)"
| "fl_mul (Num a) PosInf = (if a = 0 then NaN else if 0 < a then PosInf else NegInf)"
| "fl_mul (Num a) NegInf = (if a = 0 then NaN else if 0 < a then NegInf else PosInf)"
| "fl_mul PosInf PosInf = PosInf"
| "fl_mul PosInf NegInf = NegInf"
| "fl_mul NegInf PosInf = NegInf"
| "fl_mul NegInf NegInf = PosInf"

text \<open>
  IEEE division, as numpy does it: a zero divisor gives an infinity or NaN (and a
  warning), it does not raise.
\<close>

fun fl_div :: "pynum \<Rightarrow> pynum \<Rightarrow> pynum" where
  "fl_div NaN _ = NaN"
| "fl_div _ NaN = NaN"
| "fl_div (Num a) (Num b) =
     (if b = 0 then (if a = 0 then NaN else if 0 < a then PosInf else NegInf)
      else fl (a / b))"
| "fl_div (Num a) _ = Num 0"
| "fl_div PosInf (Num b) = (if 0 \<le> b then PosInf else NegInf)"
| "fl_div NegInf (Num b) = (if 0 \<le> b then NegInf else PosInf)"
| "fl_div _ _ = NaN"

fun fl_sqrt :: "pynum \<Rightarrow> pynum" where
  "fl_sqrt (Num a) = (if a < 0 then NaN else Num (sqrt a))"
| "fl_sqrt PosInf = PosInf"
| "fl_sqrt _ = NaN"

subsection \<open>Python objects and their arithmetic\<close>

text \<open>
  What a caller can hand to the statistics: a float, an integer of any size, or an
  object that is not a number.
\<close>

datatype pyitem = Number pynum | Text string | Integer int

datatype error = ValueError | TypeError | ZeroDivisionError | OverflowError

text \<open>\<^verbatim>\<open>float(x)\<close>, as the mixed operations apply it: "int too large to convert to
  float" beyond the range of doubles.\<close>

fun to_float :: "pyitem \<Rightarrow> error + pynum" where
  "to_float (Number x) = Inr x"
| "to_float (Integer n) =
     (if overflow_threshold \<le> \<bar>real_of_int n\<bar> then Inl OverflowError
      else Inr (Num (real_of_int n)))"
| "to_float (Text s) = Inl TypeError"

text \<open>\<^verbatim>\<open>a - b\<close>: exact on two integers, a float operation otherwise.\<close>

fun obj_sub :: "pyitem \<Rightarrow> pyitem \<Rightarrow> error + pyitem" where
  "obj_sub (Integer a) (Integer b) = Inr (Integer (a - b))"
| "obj_sub (Text s) _ = Inl TypeError"
| "obj_sub _ (Text s) = Inl TypeError"
| "obj_sub a b =
     (case to_float a of
        Inl e \<Rightarrow> Inl e
      | Inr x \<Rightarrow> (case to_float b of
                    Inl e \<Rightarrow> Inl e
                  | Inr y \<Rightarrow> Inr (Number (fl_sub x y))))"

text \<open>
  \<^verbatim>\<open>a / b\<close>, true division: always a float. A zero divisor raises; so does a
  quotient of two integers that is too large for a float.
\<close>

fun obj_truediv :: "pyitem \<Rightarrow> pyitem \<Rightarrow> error + pynum" where
  "obj_truediv (Integer a) (Integer b) =
     (if b = 0 then Inl ZeroDivisionError
      else if overflow_threshold \<le> \<bar>real_of_int a / real_of_int b\<bar> then Inl OverflowError
      else Inr (Num (real_of_int a / real_of_int b)))"
| "obj_truediv (Text s) _ = Inl TypeError"
| "obj_truediv _ (Text s) = Inl TypeError"
| "obj_truediv a b =
     (case to_float a of
        Inl e \<Rightarrow> Inl e
      | Inr x \<Rightarrow> (case to_float b of
                    Inl e \<Rightarrow> Inl e
                  | Inr y \<Rightarrow> if y = Num 0 then Inl ZeroDivisionError
                            else Inr (fl_div x y)))"

text \<open>\<^verbatim>\<open>x > 0\<close>: exact on an integer, a \<^verbatim>\<open>TypeError\<close> on a string.\<close>

fun obj_gt_zero :: "pyitem \<Rightarrow> error + bool" where
  "obj_gt_zero (Integer n) = Inr (0 < n)"
| "obj_gt_zero (Number x) = Inr (py_gt x (Num 0))"
| "obj_gt_zero (Text s) = Inl TypeError"

subsection \<open>Slicing: \<^verbatim>\<open>data[start:]\<close>\<close>

text \<open>
  Python clamps the start of a slice: a negative start counts from the end and stops at
  the front of the list, a start beyond the end gives the empty list. Slicing never raises.
\<close>

definition py_slice_from :: "'a list \<Rightarrow> int \<Rightarrow> 'a list" where
  "py_slice_from xs start =
     (let n = int (length xs);
          j = (if start < 0 then max 0 (start + n) else min start n)
      in drop (nat j) xs)"

subsection \<open>numpy: \<^verbatim>\<open>np.mean\<close> and \<open>np.std\<close> of a list\<close>

text \<open>
  numpy first turns the list into an array. A list with an element that is not a number
  becomes an array of strings, and reducing such an array raises a \<^verbatim>\<open>TypeError\<close>.
  An integer that fits a double enters the computation as that double; one beyond the
  range of doubles makes numpy raise an \<^verbatim>\<open>OverflowError\<close>. On floats numpy never
  raises: it warns and returns NaN or an infinity.
\<close>

fun is_text :: "pyitem \<Rightarrow> bool" where
  "is_text (Text s) = True"
| "is_text _ = False"

fun too_large :: "pyitem \<Rightarrow> bool" where
  "too_large (Integer n) = (overflow_threshold \<le> \<bar>real_of_int n\<bar>)"
| "too_large _ = False"

fun float_value :: "pyitem \<Rightarrow> pynum" where
  "float_value (Number x) = x"
| "float_value (Integer n) = Num (real_of_int n)"
| "float_value (Text s) = NaN"

definition as_floats :: "pyitem list \<Rightarrow> error + pynum list" where
  "as_floats xs =
     (if list_ex is_text xs then Inl TypeError
      else if list_ex too_large xs then Inl OverflowError
      else Inr (map float_value xs))"

text \<open>
  The sum of an array, accumulated in floats from the left. numpy adds in another order
  (in blocks, pairwise); without rounding the order shows only when a partial sum
  overflows.
\<close>

definition fl_sum :: "pynum list \<Rightarrow> pynum" where
  "fl_sum fs = foldl fl_add (Num 0) fs"

text \<open>
  The mean of an empty array is NaN (numpy only warns: "Mean of empty slice"); otherwise
  it is the sum divided by the number of elements.
\<close>

definition np_mean :: "pyitem list \<Rightarrow> error + pynum" where
  "np_mean xs =
     (case as_floats xs of
        Inl e \<Rightarrow> Inl e
      | Inr fs \<Rightarrow>
          Inr (if fs = [] then NaN
               else fl_div (fl_sum fs) (Num (real (length fs)))))"

text \<open>
  \<^verbatim>\<open>np.std\<close> with its default \<^verbatim>\<open>ddof=0\<close>: the deviations from the mean are
  squared, their sum is divided by the number of elements, and the root is taken.
\<close>

definition np_std :: "pyitem list \<Rightarrow> error + pynum" where
  "np_std xs =
     (case as_floats xs of
        Inl e \<Rightarrow> Inl e
      | Inr fs \<Rightarrow>
          Inr (if fs = [] then NaN
               else (let n = Num (real (length fs));
                         arrmean = fl_div (fl_sum fs) n;
                         x = map (\<lambda>a. fl_sub a arrmean) fs;
                         sq = map (\<lambda>d. fl_mul d d) x
                     in fl_sqrt (fl_div (fl_sum sq) n))))"

subsection \<open>The statistics of \<^verbatim>\<open>main.py\<close>\<close>

text \<open>
  Each function is a \<^verbatim>\<open>try\<close> around one expression, with
  \<^verbatim>\<open>except Exception: return 0\<close>. The result is a sum so that "raises" can be said:
  \<open>Inl\<close> would be an exception that reaches the caller.
\<close>

definition moving_average :: "pyitem list \<Rightarrow> int \<Rightarrow> error + pynum" where
  "moving_average data window_size =
     (case np_mean (py_slice_from data (- window_size)) of
        Inr m \<Rightarrow> Inr m
      | Inl e \<Rightarrow> Inr (Num 0))"

definition standard_deviation :: "pyitem list \<Rightarrow> int \<Rightarrow> error + pynum" where
  "standard_deviation data window_size =
     (case np_std (py_slice_from data (- window_size)) of
        Inr s \<Rightarrow> Inr s
      | Inl e \<Rightarrow> Inr (Num 0))"

text \<open>
  The expression inside the \<^verbatim>\<open>try\<close> of \<open>z_score\<close>:
  \<^verbatim>\<open>(data_point - mean) / std_dev if std_dev > 0 else 0\<close>. The test comes first;
  the difference and the quotient are evaluated only when it holds.
\<close>

definition z_score_expr :: "pyitem \<Rightarrow> pyitem \<Rightarrow> pyitem \<Rightarrow> error + pynum" where
  "z_score_expr data_point mean std_dev =
     (case obj_gt_zero std_dev of
        Inl e \<Rightarrow> Inl e
      | Inr positive \<Rightarrow>
          if positive then
            (case obj_sub data_point mean of
               Inl e \<Rightarrow> Inl e
             | Inr d \<Rightarrow> obj_truediv d std_dev)
          else Inr (Num 0))"

definition z_score :: "pyitem \<Rightarrow> pyitem \<Rightarrow> pyitem \<Rightarrow> error + pynum" where
  "z_score data_point mean std_dev =
     (case z_score_expr data_point mean std_dev of
        Inr z \<Rightarrow> Inr z
      | Inl e \<Rightarrow> Inr (Num 0))"

subsection \<open>The statistics as the specification words them\<close>

text \<open>
  "The last \<open>k\<close> elements", "arithmetic mean" and "population standard deviation (divide
  by N, not N-1)", written from the specification's words and compared below with what
  the code computes.
\<close>

definition last_elems :: "nat \<Rightarrow> 'a list \<Rightarrow> 'a list" where
  "last_elems k xs = rev (take k (rev xs))"

definition arithmetic_mean :: "real list \<Rightarrow> real" where
  "arithmetic_mean xs = sum_list xs / real (length xs)"


subsection \<open>The stream generator\<close>

text \<open>
  \<^verbatim>\<open>simulate_data_stream\<close> has a \<^verbatim>\<open>yield\<close> in its body, so it is a generator
  function: calling it runs none of the body and returns a generator object, and the body
  runs, up to the next \<^verbatim>\<open>yield\<close>, each time \<^verbatim>\<open>next\<close> is called on the object.

  The wall clock and the random source are oracles: \<open>clock w k\<close> is what the \<open>k\<close>-th
  call of \<^verbatim>\<open>time.time()\<close> returns, \<open>noise w k\<close> the \<open>k\<close>-th draw of
  \<^verbatim>\<open>random.uniform(-1, 1)\<close>. \<^verbatim>\<open>time.sleep\<close> only lets the clock advance.
\<close>

record world =
  clock :: "nat \<Rightarrow> real"
  clock_reads :: nat
  noise :: "nat \<Rightarrow> real"
  noise_draws :: nat

definition time_time :: "world \<Rightarrow> real \<times> world" where
  "time_time w = (clock w (clock_reads w), w\<lparr>clock_reads := Suc (clock_reads w)\<rparr>)"

definition random_uniform :: "world \<Rightarrow> real \<times> world" where
  "random_uniform w = (noise w (noise_draws w), w\<lparr>noise_draws := Suc (noise_draws w)\<rparr>)"

text \<open>Where the body of the generator stands: not entered yet, at the \<^verbatim>\<open>yield\<close>
  (with its local \<^verbatim>\<open>start_time\<close>), or left.\<close>

datatype gen_state = Created | Suspended real | Finished

record generator =
  g_duration :: real
  g_interval :: real
  g_state :: gen_state

text \<open>What \<^verbatim>\<open>next(data_stream)\<close> does: yields a value, ends, or raises.\<close>

datatype fetched = Yielded pynum | StopIteration | Raised error

definition simulate_data_stream :: "real \<Rightarrow> real \<Rightarrow> error + generator" where
  "simulate_data_stream duration interval =
     Inr \<lparr>g_duration = duration, g_interval = interval, g_state = Created\<rparr>"

text \<open>One turn of the \<^verbatim>\<open>while\<close> loop, from its test to the \<^verbatim>\<open>yield\<close>.\<close>

definition loop_iteration :: "real \<Rightarrow> generator \<Rightarrow> world \<Rightarrow> fetched \<times> generator \<times> world" where
  "loop_iteration start_time g w =
     (let (now, w1) = time_time w in
      if now - start_time < g_duration g then
        (let (t, w2) = time_time w1;
             current_time = t - start_time;
             regular_pattern = 10 * sin (0.2 * current_time);
             seasonal_variation = 5 * sin (0.05 * current_time);
             (noise, w3) = random_uniform w2;
             data_point = regular_pattern + seasonal_variation + noise
         in (Yielded (Num data_point), g\<lparr>g_state := Suspended start_time\<rparr>, w3))
      else (StopIteration, g\<lparr>g_state := Finished\<rparr>, w1))"

definition gen_next :: "generator \<Rightarrow> world \<Rightarrow> fetched \<times> generator \<times> world" where
  "gen_next g w =
     (case g_state g of
        Finished \<Rightarrow> (StopIteration, g, w)
      | Created \<Rightarrow>
          if g_duration g \<le> 0 \<or> g_interval g \<le> 0
          then (Raised ValueError, g\<lparr>g_state := Finished\<rparr>, w)
          else (let (start_time, w1) = time_time w in loop_iteration start_time g w1)
      | Suspended start_time \<Rightarrow> loop_iteration start_time g w)"

text \<open>The results of the first \<open>n\<close> calls of \<^verbatim>\<open>next\<close>.\<close>

fun pull :: "nat \<Rightarrow> generator \<Rightarrow> world \<Rightarrow> fetched list" where
  "pull 0 g w = []"
| "pull (Suc n) g w = (case gen_next g w of (ev, g', w') \<Rightarrow> ev # pull n g' w')"

subsection \<open>The driver: \<^verbatim>\<open>detect_anomalies_with_visualization\<close> and its \<^verbatim>\<open>update\<close>\<close>

text \<open>
  What the presentation holds: the two lists behind the curve, the anomaly markers, and
  the rows of the two tables. A row of the main table has no Z-score (\<^verbatim>\<open>None\<close>, shown
  as "N/A") while data is being collected. Widgets, colours and number formatting are left
  out.
\<close>

record table_row =
  row_time :: nat
  row_value :: pynum
  row_z_score :: "pynum option"
  row_is_anomaly :: bool

record anomaly_row =
  a_time :: nat
  a_value :: pynum
  a_z_score :: pynum

record gui =
  data_points :: "pynum list"
  time_points :: "nat list"
  anomaly_points :: "anomaly_row list"
  table_widget :: "table_row list"
  anomaly_table_widget :: "anomaly_row list"
  timer_active :: bool

definition initial_gui :: gui where
  "initial_gui = \<lparr>data_points = [], time_points = [], anomaly_points = [],
     table_widget = [], anomaly_table_widget = [], timer_active = True\<rparr>"

definition add_row_to_anomaly_table :: "nat \<Rightarrow> pynum \<Rightarrow> pynum \<Rightarrow> gui \<Rightarrow> gui" where
  "add_row_to_anomaly_table time val z g =
     g\<lparr>anomaly_table_widget :=
         anomaly_table_widget g @ [\<lparr>a_time = time, a_value = val, a_z_score = z\<rparr>]\<rparr>"

definition add_row_to_table :: "nat \<Rightarrow> pynum \<Rightarrow> pynum option \<Rightarrow> bool \<Rightarrow> gui \<Rightarrow> gui" where
  "add_row_to_table time val z is_anomaly g =
     g\<lparr>table_widget :=
         table_widget g @ [\<lparr>row_time = time, row_value = val, row_z_score = z,
                            row_is_anomaly = is_anomaly\<rparr>]\<rparr>"

text \<open>
  One call of \<^verbatim>\<open>update\<close>, given what \<^verbatim>\<open>next(data_stream)\<close> did. An exception
  inside the inner \<^verbatim>\<open>try\<close> is printed and the tick adds no row.
\<close>

definition update :: "int \<Rightarrow> pynum \<Rightarrow> fetched \<Rightarrow> gui \<Rightarrow> gui" where
  "update window_size z_threshold ev g =
     (case ev of
        StopIteration \<Rightarrow> g\<lparr>timer_active := False\<rparr>
      | Raised e \<Rightarrow> g
      | Yielded data_point \<Rightarrow>
          (let frame = length (data_points g);
               g1 = g\<lparr>time_points := time_points g @ [frame],
                       data_points := data_points g @ [data_point]\<rparr>
           in if int (length (data_points g1)) > window_size then
                (case moving_average (map Number (data_points g1)) window_size of
                   Inl e \<Rightarrow> g1
                 | Inr mean \<Rightarrow>
                (case standard_deviation (map Number (data_points g1)) window_size of
                   Inl e \<Rightarrow> g1
                 | Inr std_dev \<Rightarrow>
                (case z_score (Number data_point) (Number mean) (Number std_dev) of
                   Inl e \<Rightarrow> g1
                 | Inr z \<Rightarrow>
                     if py_gt (py_abs z) z_threshold then
                       add_row_to_table frame data_point (Some z) True
                         (add_row_to_anomaly_table frame data_point z
                            (g1\<lparr>anomaly_points := anomaly_points g1 @
                                  [\<lparr>a_time = frame, a_value = data_point, a_z_score = z\<rparr>]\<rparr>))
                     else add_row_to_table frame data_point (Some z) False g1)))
              else add_row_to_table frame data_point None False g1))"

text \<open>The timer calls \<^verbatim>\<open>update\<close> every 100 ms until \<^verbatim>\<open>timer.stop()\<close>.\<close>

fun run_timer :: "int \<Rightarrow> pynum \<Rightarrow> fetched list \<Rightarrow> gui \<Rightarrow> gui" where
  "run_timer window_size z_threshold [] g = g"
| "run_timer window_size z_threshold (ev # evs) g =
     (if timer_active g
      then run_timer window_size z_threshold evs (update window_size z_threshold ev g)
      else g)"

text \<open>
  The function itself is an ordinary function: its check runs when it is called.
  \<open>data_stream\<close> lists what \<^verbatim>\<open>next\<close> does at each tick while the window is open.
\<close>

definition detect_anomalies_with_visualization ::
    "fetched list \<Rightarrow> int \<Rightarrow> pynum \<Rightarrow> error + gui" where
  "detect_anomalies_with_visualization data_stream window_size z_threshold =
     (if window_size \<le> 0 \<or> py_le z_threshold (Num 0) then Inl ValueError
      else Inr (run_timer window_size z_threshold data_stream initial_gui))"

section \<open>Properties\<close>

subsection \<open>Floats and Python arithmetic\<close>


lemma fl_Num: "\<bar>x\<bar> < overflow_threshold \<Longrightarrow> fl x = Num x"
  by (auto simp: fl_def)

lemma py_gt_positive_nonzero: "py_gt s (Num 0) \<Longrightarrow> s \<noteq> Num 0"
  by (cases s) auto





subsection \<open>Z-score\<close>

lemma z_score_floats:
  "z_score (Number x) (Number m) (Number s) =
     Inr (if py_gt s (Num 0) then fl_div (fl_sub x m) s else Num 0)"
  using py_gt_positive_nonzero [of s]
  by (simp add: z_score_def z_score_expr_def)

lemma z_score_integers:
  "z_score (Integer x) (Integer m) (Integer s) =
     Inr (Num (if 0 < s \<and> \<bar>real_of_int (x - m) / real_of_int s\<bar> < overflow_threshold
               then real_of_int (x - m) / real_of_int s else 0))"
  by (simp add: z_score_def z_score_expr_def)

lemma z_score_returns: "\<exists>z. z_score dp mean sd = Inr z"
  by (auto simp: z_score_def split: sum.splits)

lemma z_score_not_positive:
  "obj_gt_zero sd \<noteq> Inr True \<Longrightarrow> z_score dp mean sd = Inr (Num 0)"
  by (cases "obj_gt_zero sd") (auto simp: z_score_def z_score_expr_def)

text \<open>
  C1, as stated, fails on integers: with \<open>std_dev = 1 > 0\<close> the quotient
  \<open>(10**309 - 0) / 1\<close> is too large for a float, Python raises \<^verbatim>\<open>OverflowError\<close>,
  and the \<^verbatim>\<open>except\<close> clause returns 0 instead of the quotient.
\<close>

theorem z_score_overflow_swallowed:
  "obj_gt_zero (Integer 1) = Inr True
   \<and> z_score (Integer (10 ^ 309)) (Integer 0) (Integer 1) = Inr (Num 0)
   \<and> (real_of_int (10 ^ 309) - real_of_int 0) / real_of_int 1 \<noteq> 0"
  by (simp add: z_score_def z_score_expr_def overflow_threshold_def)

text \<open>
  C1, amended: \<open>z_score\<close> never raises. When \<open>std_dev > 0\<close> and neither the difference
  nor the quotient raises, it returns \<open>(data_point - mean) / std_dev\<close> as Python computes
  it; on floats nothing raises, and an overflow gives an infinity. When evaluating the
  expression raises (an integer quotient beyond the range of floats, an argument that is
  not a number) it returns 0, and it returns 0 whenever \<open>std_dev > 0\<close> does not hold
  (zero, negative or NaN). \<open>z_score(10, 5, 2) = 2.5\<close>, and \<open>z_score(x, mean, 0) = 0\<close> for
  every \<open>x\<close> and \<open>mean\<close>.
\<close>

theorem z_score_result:
  "(\<exists>z. z_score dp mean sd = Inr z)
   \<and> (obj_gt_zero sd = Inr True \<and> obj_sub dp mean = Inr d \<and> obj_truediv d sd = Inr q \<longrightarrow>
        z_score dp mean sd = Inr q)
   \<and> (z_score_expr dp mean sd = Inl e \<longrightarrow> z_score dp mean sd = Inr (Num 0))
   \<and> (obj_gt_zero sd \<noteq> Inr True \<longrightarrow> z_score dp mean sd = Inr (Num 0))
   \<and> z_score (Number x) (Number m) (Number s) =
       Inr (if py_gt s (Num 0) then fl_div (fl_sub x m) s else Num 0)
   \<and> z_score (Integer 10) (Integer 5) (Integer 2) = Inr (Num 2.5)
   \<and> z_score (Number (Num 10)) (Number (Num 5)) (Number (Num 2)) = Inr (Num 2.5)
   \<and> z_score dp mean (Integer 0) = Inr (Num 0)
   \<and> z_score dp mean (Number (Num 0)) = Inr (Num 0)
   \<and> z_score dp mean (Number NaN) = Inr (Num 0)"
proof -
  have quotient: "z_score dp mean sd = Inr q"
    if "obj_gt_zero sd = Inr True \<and> obj_sub dp mean = Inr d \<and> obj_truediv d sd = Inr q"
    using that by (simp add: z_score_def z_score_expr_def)
  have swallowed: "z_score dp mean sd = Inr (Num 0)" if "z_score_expr dp mean sd = Inl e"
    using that by (simp add: z_score_def)
  have ex1: "z_score (Integer 10) (Integer 5) (Integer 2) = Inr (Num 2.5)"
    by (simp add: z_score_integers overflow_threshold_def)
  have ex2: "z_score (Number (Num 10)) (Number (Num 5)) (Number (Num 2)) = Inr (Num 2.5)"
    by (simp add: z_score_floats fl_sub_def fl_def overflow_threshold_def)
  have zero: "z_score dp mean (Integer 0) = Inr (Num 0)"
    "z_score dp mean (Number (Num 0)) = Inr (Num 0)"
    "z_score dp mean (Number NaN) = Inr (Num 0)"
    by (simp_all add: z_score_not_positive)
  show ?thesis
    using z_score_returns [of dp mean sd] quotient swallowed z_score_not_positive [of sd dp mean]
      z_score_floats [of x m s] ex1 ex2 zero
    by blast
qed

theorem z_score_result_witness:
  "obj_gt_zero (Number (Num 4)) = Inr True
   \<and> obj_sub (Integer 9) (Number (Num 1)) = Inr (Number (Num 8))
   \<and> obj_truediv (Number (Num 8)) (Number (Num 4)) = Inr (Num 2)
   \<and> z_score (Integer 9) (Number (Num 1)) (Number (Num 4)) = Inr (Num 2)
   \<and> z_score_expr (Integer (10 ^ 309)) (Integer 0) (Integer 1) = Inl OverflowError
   \<and> z_score (Integer (10 ^ 309)) (Integer 0) (Integer 1) = Inr (Num 0)
   \<and> obj_gt_zero (Integer (- 3)) \<noteq> Inr True
   \<and> z_score (Integer 7) (Integer 1) (Integer (- 3)) = Inr (Num 0)
   \<and> z_score_expr (Text ''a'') (Integer 1) (Integer 3) = Inl TypeError
   \<and> z_score (Text ''a'') (Integer 1) (Integer 3) = Inr (Num 0)"
  using z_score_result [where dp = "Integer 9" and mean = "Number (Num 1)" and sd = "Number (Num 4)"
      and d = "Number (Num 8)" and q = "Num 2"]
    z_score_result [where dp = "Integer (10 ^ 309)" and mean = "Integer 0" and sd = "Integer 1"
      and e = OverflowError]
    z_score_result [where dp = "Integer 7" and mean = "Integer 1" and sd = "Integer (- 3)"]
    z_score_result [where dp = "Text ''a''" and mean = "Integer 1" and sd = "Integer 3"
      and e = TypeError]
  by (simp add: z_score_expr_def fl_sub_def fl_def overflow_threshold_def)

subsection \<open>numpy on lists of numbers, and the trailing slice\<close>

lemma list_ex_is_text_numbers: "\<not> list_ex is_text (map Number fs)"
  by (induction fs) simp_all

lemma list_ex_too_large_numbers: "\<not> list_ex too_large (map Number fs)"
  by (induction fs) simp_all

lemma as_floats_numbers: "as_floats (map Number fs) = Inr fs"
  by (simp add: as_floats_def list_ex_is_text_numbers list_ex_too_large_numbers comp_def)

lemma as_floats_text: "Text s \<in> set xs \<Longrightarrow> as_floats xs = Inl TypeError"
proof -
  assume "Text s \<in> set xs"
  then have "list_ex is_text xs"
    unfolding list_ex_iff by (intro bexI [of _ "Text s"]) simp_all
  then show ?thesis by (simp add: as_floats_def)
qed

lemma np_mean_numbers: "\<exists>m. np_mean (map Number fs) = Inr m"
  by (simp add: np_mean_def as_floats_numbers)

lemma np_std_numbers: "\<exists>s. np_std (map Number fs) = Inr s"
  by (simp add: np_std_def as_floats_numbers)

lemma moving_average_returns: "\<exists>m. moving_average data w = Inr m"
  by (auto simp: moving_average_def split: sum.splits)

lemma standard_deviation_returns: "\<exists>s. standard_deviation data w = Inr s"
  by (auto simp: standard_deviation_def split: sum.splits)

lemma last_elems_drop: "last_elems k xs = drop (length xs - k) xs"
  by (simp add: last_elems_def rev_take)

lemma py_slice_window:
  "1 \<le> w \<Longrightarrow> w \<le> int (length xs) \<Longrightarrow> py_slice_from xs (- w) = last_elems (nat w) xs"
  by (auto simp: py_slice_from_def last_elems_drop Let_def max_def intro!: arg_cong2 [where f = drop])

lemma py_slice_whole:
  "w = 0 \<or> int (length xs) \<le> w \<Longrightarrow> py_slice_from xs (- w) = xs"
  by (auto simp: py_slice_from_def Let_def max_def min_def)

lemma py_slice_from_map: "py_slice_from (map f xs) i = map f (py_slice_from xs i)"
  by (simp add: py_slice_from_def Let_def drop_map)

lemma last_elems_map: "last_elems k (map f xs) = map f (last_elems k xs)"
  by (simp add: last_elems_drop drop_map)

lemma last_elems_nonempty: "0 < k \<Longrightarrow> xs \<noteq> [] \<Longrightarrow> last_elems k xs \<noteq> []"
  by (cases xs) (auto simp: last_elems_drop)

lemma moving_average_of_window:
  assumes "1 \<le> w" "w \<le> int (length data)"
  shows "moving_average data w =
           (case np_mean (last_elems (nat w) data) of Inr m \<Rightarrow> Inr m | Inl e \<Rightarrow> Inr (Num 0))"
  using assms by (simp add: moving_average_def py_slice_window)


text \<open>
  Sums of integers that fit the 53 bits of a double are exact, whatever the order of the
  additions.
\<close>

lemma foldl_fl_add_exact:
  "(\<Sum>x\<leftarrow>xs. \<bar>x\<bar>) + \<bar>a\<bar> < overflow_threshold \<Longrightarrow>
   foldl fl_add (Num a) (map Num xs) = Num (a + sum_list xs)"
proof (induction xs arbitrary: a)
  case Nil
  then show ?case by simp
next
  case (Cons x xs)
  have nonneg: "0 \<le> (\<Sum>x\<leftarrow>xs. \<bar>x\<bar>)"
    by (rule sum_list_nonneg) auto
  have "\<bar>a + x\<bar> < overflow_threshold"
    using Cons.prems nonneg by simp
  then have step: "fl (a + x) = Num (a + x)"
    by (rule fl_Num)
  have "(\<Sum>x\<leftarrow>xs. \<bar>x\<bar>) + \<bar>a + x\<bar> < overflow_threshold"
    using Cons.prems by simp
  from Cons.IH [OF this] step show ?case
    by (simp add: add.assoc)
qed

lemma abs_le_sum_list_abs: "(n :: int) \<in> set ns \<Longrightarrow> \<bar>n\<bar> \<le> (\<Sum>n\<leftarrow>ns. \<bar>n\<bar>)"
proof (induction ns)
  case Nil
  then show ?case by simp
next
  case (Cons m ns)
  have "0 \<le> (\<Sum>n\<leftarrow>ns. \<bar>n\<bar>)"
    by (rule sum_list_nonneg) auto
  with Cons show ?case by auto
qed

lemma two_53_below_threshold: "2 ^ 53 < overflow_threshold"
  by (simp add: overflow_threshold_def)

lemma sum_list_real_of_int: "sum_list (map real_of_int xs) = real_of_int (sum_list xs)"
  by (induction xs) simp_all

lemma np_mean_integers_exact:
  assumes "ns \<noteq> []" "(\<Sum>n\<leftarrow>ns. \<bar>n\<bar>) \<le> 2 ^ 53"
  shows "np_mean (map Integer ns) = Inr (Num (real_of_int (sum_list ns) / real (length ns)))"
proof -
  have small: "\<bar>real_of_int n\<bar> < overflow_threshold" if "n \<in> set ns" for n
  proof -
    have "\<bar>n\<bar> \<le> 2 ^ 53"
      using abs_le_sum_list_abs [OF that] assms(2) by linarith
    then have "real_of_int \<bar>n\<bar> \<le> real_of_int (2 ^ 53)"
      by (simp only: of_int_le_iff)
    then have "\<bar>real_of_int n\<bar> \<le> 2 ^ 53"
      by simp
    with two_53_below_threshold show ?thesis by linarith
  qed
  have no_text: "\<not> list_ex is_text (map Integer ns)"
    by (induction ns) simp_all
  have no_large: "\<not> list_ex too_large (map Integer ns)"
    using small by (induction ns) (auto simp: not_le)
  have arr: "as_floats (map Integer ns) = Inr (map Num (map real_of_int ns))"
    using no_text no_large by (simp add: as_floats_def comp_def)
  have abs_sum: "(\<Sum>x\<leftarrow>map real_of_int ns. \<bar>x\<bar>) = real_of_int (\<Sum>n\<leftarrow>ns. \<bar>n\<bar>)"
    by (induction ns) simp_all
  have "real_of_int (\<Sum>n\<leftarrow>ns. \<bar>n\<bar>) \<le> real_of_int (2 ^ 53)"
    using assms(2) by (simp only: of_int_le_iff)
  then have abs_bound: "real_of_int (\<Sum>n\<leftarrow>ns. \<bar>n\<bar>) \<le> 2 ^ 53"
    by simp
  then have bound: "(\<Sum>x\<leftarrow>map real_of_int ns. \<bar>x\<bar>) + \<bar>0 :: real\<bar> < overflow_threshold"
    using two_53_below_threshold abs_sum by simp
  have sum_eq: "sum_list (map real_of_int ns) = real_of_int (sum_list ns)"
    by (induction ns) simp_all
  have total: "fl_sum (map Num (map real_of_int ns)) = Num (real_of_int (sum_list ns))"
    unfolding fl_sum_def using foldl_fl_add_exact [OF bound] sum_eq by simp
  have "\<bar>sum_list ns\<bar> \<le> (\<Sum>n\<leftarrow>ns. \<bar>n\<bar>)"
    by (rule sum_list_abs)
  then have "real_of_int \<bar>sum_list ns\<bar> \<le> real_of_int (\<Sum>n\<leftarrow>ns. \<bar>n\<bar>)"
    by (simp only: of_int_le_iff)
  with abs_bound have s_bound: "\<bar>real_of_int (sum_list ns)\<bar> \<le> 2 ^ 53"
    by simp
  have len: "1 \<le> real (length ns)"
    using assms(1) by (cases ns) simp_all
  have "\<bar>real_of_int (sum_list ns)\<bar> * 1 \<le> \<bar>real_of_int (sum_list ns)\<bar> * real (length ns)"
    using len by (intro mult_left_mono) simp_all
  then have "\<bar>real_of_int (sum_list ns)\<bar> / real (length ns) \<le> \<bar>real_of_int (sum_list ns)\<bar>"
    using len by (simp add: divide_le_eq)
  with s_bound have "\<bar>real_of_int (sum_list ns) / real (length ns)\<bar> \<le> 2 ^ 53"
    by simp
  then have quot: "fl (real_of_int (sum_list ns) / real (length ns))
      = Num (real_of_int (sum_list ns) / real (length ns))"
    using two_53_below_threshold by (intro fl_Num) linarith
  have total': "fl_sum (map (Num \<circ> real_of_int) ns) = Num (real_of_int (sum_list ns))"
    using total by simp
  show ?thesis
    using assms(1) quot by (simp add: np_mean_def arr total')
qed

subsection \<open>Moving average\<close>

text \<open>
  C2, as stated, fails inside its own conditions: on the one-element list \<open>[10**309]\<close>
  with window size 1 numpy raises, and \<open>moving_average\<close> returns the fallback 0, which is
  not the arithmetic mean \<open>10**309\<close>.
\<close>

theorem moving_average_big_integer:
  "[Integer (10 ^ 309)] \<noteq> [] \<and> (1 :: int) \<le> 1 \<and> (1 :: int) \<le> int (length [Integer (10 ^ 309)])
   \<and> moving_average [Integer (10 ^ 309)] 1 = Inr (Num 0)
   \<and> arithmetic_mean [real_of_int (10 ^ 309)] \<noteq> 0"
  by (simp add: moving_average_def py_slice_from_def np_mean_def as_floats_def
      overflow_threshold_def arithmetic_mean_def)

text \<open>
  C2, amended: for a non-empty list and \<open>1 \<le> window_size \<le> len(data)\<close>,
  \<open>moving_average\<close> returns what \<^verbatim>\<open>np.mean\<close> returns on the last \<open>window_size\<close>
  elements, and the fallback 0 when \<^verbatim>\<open>np.mean\<close> raises; on a list of floats it does
  not raise. \<^verbatim>\<open>np.mean\<close> is the mean in double precision: it is the exact arithmetic
  mean when the window holds integers whose absolute values sum to at most \<open>2^53\<close> and
  whose sum is a multiple of \<open>window_size\<close>, as in \<open>moving_average([1,2,3,4,5], 3) = 4.0\<close>.
\<close>

theorem moving_average_window:
  "(data \<noteq> [] \<and> 1 \<le> w \<and> w \<le> int (length data) \<longrightarrow>
      moving_average data w =
        (case np_mean (last_elems (nat w) data) of Inr m \<Rightarrow> Inr m | Inl e \<Rightarrow> Inr (Num 0)))
   \<and> (fs \<noteq> [] \<and> 1 \<le> w \<and> w \<le> int (length fs) \<longrightarrow>
        (\<exists>m. np_mean (map Number (last_elems (nat w) fs)) = Inr m
           \<and> moving_average (map Number fs) w = Inr m))
   \<and> (ns \<noteq> [] \<and> 1 \<le> w \<and> w \<le> int (length ns)
        \<and> (\<Sum>n\<leftarrow>last_elems (nat w) ns. \<bar>n\<bar>) \<le> 2 ^ 53
        \<and> w dvd sum_list (last_elems (nat w) ns) \<longrightarrow>
        moving_average (map Integer ns) w =
          Inr (Num (arithmetic_mean (map real_of_int (last_elems (nat w) ns)))))
   \<and> moving_average (map Integer [1, 2, 3, 4, 5]) 3 = Inr (Num 4)
   \<and> moving_average (map (\<lambda>x. Number (Num x)) [1, 2, 3, 4, 5]) 3 = Inr (Num 4)"
proof -
  have window: "moving_average data w =
        (case np_mean (last_elems (nat w) data) of Inr m \<Rightarrow> Inr m | Inl e \<Rightarrow> Inr (Num 0))"
    if "data \<noteq> [] \<and> 1 \<le> w \<and> w \<le> int (length data)" for data
    using that by (simp add: moving_average_of_window)
  have floats: "\<exists>m. np_mean (map Number (last_elems (nat w) fs)) = Inr m
           \<and> moving_average (map Number fs) w = Inr m"
    if h: "fs \<noteq> [] \<and> 1 \<le> w \<and> w \<le> int (length fs)"
  proof -
    obtain m where m: "np_mean (map Number (last_elems (nat w) fs)) = Inr m"
      using np_mean_numbers by blast
    have "moving_average (map Number fs) w = Inr m"
      using h m by (simp add: moving_average_of_window last_elems_map)
    with m show ?thesis by blast
  qed
  have ints: "moving_average (map Integer ns) w =
          Inr (Num (arithmetic_mean (map real_of_int (last_elems (nat w) ns))))"
    if h: "ns \<noteq> [] \<and> 1 \<le> w \<and> w \<le> int (length ns)
        \<and> (\<Sum>n\<leftarrow>last_elems (nat w) ns. \<bar>n\<bar>) \<le> 2 ^ 53
        \<and> w dvd sum_list (last_elems (nat w) ns)" for ns w
  proof -
    let ?win = "last_elems (nat w) ns"
    have ne: "?win \<noteq> []"
      using h by (intro last_elems_nonempty) auto
    have sum_eq: "sum_list (map real_of_int ?win) = real_of_int (sum_list ?win)"
      by (rule sum_list_real_of_int)
    have "np_mean (map Integer ?win)
        = Inr (Num (real_of_int (sum_list ?win) / real (length ?win)))"
      using ne h by (intro np_mean_integers_exact) auto
    then show ?thesis
      using h by (simp add: moving_average_of_window last_elems_map arithmetic_mean_def sum_eq)
  qed
  have ex1: "moving_average (map Integer [1, 2, 3, 4, 5]) 3 = Inr (Num 4)"
    using ints [of "[1, 2, 3, 4, 5]" 3]
    by (simp add: last_elems_def arithmetic_mean_def)
  have ex2: "moving_average (map (\<lambda>x. Number (Num x)) [1, 2, 3, 4, 5]) 3 = Inr (Num 4)"
    by (simp add: moving_average_def py_slice_from_def np_mean_def as_floats_def fl_sum_def
        fl_def overflow_threshold_def)
  from window floats ints ex1 ex2 show ?thesis by blast
qed

theorem moving_average_window_witness:
  "[Integer 2, Text ''x'', Integer 9] \<noteq> [] \<and> (1 :: int) \<le> 2
   \<and> (2 :: int) \<le> int (length [Integer 2, Text ''x'', Integer 9])
   \<and> moving_average [Integer 2, Text ''x'', Integer 9] 2 = Inr (Num 0)
   \<and> [Num 2, Num 4, Num 9] \<noteq> [] \<and> (2 :: int) \<le> int (length [Num 2, Num 4, Num 9])
   \<and> moving_average (map Number [Num 2, Num 4, Num 9]) 2 = Inr (Num (13 / 2))
   \<and> [2, 4, 10 :: int] \<noteq> [] \<and> (2 :: int) \<le> int (length [2, 4, 10 :: int])
   \<and> (\<Sum>n\<leftarrow>last_elems (nat 2) [2, 4, 10 :: int]. \<bar>n\<bar>) \<le> 2 ^ 53
   \<and> (2 :: int) dvd sum_list (last_elems (nat 2) [2, 4, 10])
   \<and> moving_average (map Integer [2, 4, 10]) 2 = Inr (Num 7)"
  using moving_average_window [of "[Integer 2, Text ''x'', Integer 9]" 2 "[Num 2, Num 4, Num 9]" "[2, 4, 10]"]
  by (simp add: last_elems_def arithmetic_mean_def np_mean_def as_floats_def fl_sum_def fl_def
      overflow_threshold_def)

subsection \<open>Standard deviation\<close>






subsection \<open>Degenerate windows\<close>

text \<open>
  C10, as stated, fails on the non-empty list \<open>[10**309]\<close>: with window size 0 or 7 the
  slice is the whole list, numpy raises on it, and both functions return the fallback 0
  that the claim excludes.
\<close>

theorem degenerate_window_fallback:
  "[Integer (10 ^ 309)] \<noteq> [] \<and> int (length [Integer (10 ^ 309)]) < 7
   \<and> np_mean (py_slice_from [Integer (10 ^ 309)] (- 0)) = Inl OverflowError
   \<and> moving_average [Integer (10 ^ 309)] 0 = Inr (Num 0)
   \<and> standard_deviation [Integer (10 ^ 309)] 0 = Inr (Num 0)
   \<and> np_mean (py_slice_from [Integer (10 ^ 309)] (- 7)) = Inl OverflowError
   \<and> moving_average [Integer (10 ^ 309)] 7 = Inr (Num 0)
   \<and> standard_deviation [Integer (10 ^ 309)] 7 = Inr (Num 0)"
  by (simp add: moving_average_def standard_deviation_def py_slice_from_def np_mean_def
      np_std_def as_floats_def overflow_threshold_def)

text \<open>
  C10, amended: for a non-empty list, a \<open>window_size\<close> of 0 or one greater than
  \<open>len(data)\<close> makes the slice \<open>data[-window_size:]\<close> the whole list, so both functions
  return what they return for \<open>window_size = len(data)\<close>: numpy's statistic of the whole
  list, or the fallback 0 when numpy raises on the whole list. On a list of floats numpy
  does not raise, and the result is the statistic of the whole list.
\<close>

theorem degenerate_window_whole_list:
  "(data \<noteq> [] \<and> (w = 0 \<or> int (length data) < w) \<longrightarrow>
      py_slice_from data (- w) = data
      \<and> moving_average data w =
          (case np_mean data of Inr m \<Rightarrow> Inr m | Inl e \<Rightarrow> Inr (Num 0))
      \<and> standard_deviation data w =
          (case np_std data of Inr s \<Rightarrow> Inr s | Inl e \<Rightarrow> Inr (Num 0))
      \<and> moving_average data w = moving_average data (int (length data))
      \<and> standard_deviation data w = standard_deviation data (int (length data)))
   \<and> (fs \<noteq> [] \<and> (w = 0 \<or> int (length fs) < w) \<longrightarrow>
        (\<exists>m s. np_mean (map Number fs) = Inr m \<and> moving_average (map Number fs) w = Inr m
             \<and> np_std (map Number fs) = Inr s \<and> standard_deviation (map Number fs) w = Inr s))"
proof -
  have whole: "py_slice_from xs (- w) = xs" if "w = 0 \<or> int (length xs) < w" for xs :: "pyitem list"
    using that by (intro py_slice_whole) auto
  have full: "py_slice_from xs (- int (length xs)) = xs" for xs :: "pyitem list"
    by (intro py_slice_whole) auto
  have general: "py_slice_from data (- w) = data
      \<and> moving_average data w =
          (case np_mean data of Inr m \<Rightarrow> Inr m | Inl e \<Rightarrow> Inr (Num 0))
      \<and> standard_deviation data w =
          (case np_std data of Inr s \<Rightarrow> Inr s | Inl e \<Rightarrow> Inr (Num 0))
      \<and> moving_average data w = moving_average data (int (length data))
      \<and> standard_deviation data w = standard_deviation data (int (length data))"
    if "data \<noteq> [] \<and> (w = 0 \<or> int (length data) < w)" for data
    unfolding moving_average_def standard_deviation_def full
    using whole [of data] that by simp
  have floats: "\<exists>m s. np_mean (map Number fs) = Inr m \<and> moving_average (map Number fs) w = Inr m
             \<and> np_std (map Number fs) = Inr s \<and> standard_deviation (map Number fs) w = Inr s"
    if h: "fs \<noteq> [] \<and> (w = 0 \<or> int (length fs) < w)"
  proof -
    obtain m where m: "np_mean (map Number fs) = Inr m"
      using np_mean_numbers by blast
    obtain s where s: "np_std (map Number fs) = Inr s"
      using np_std_numbers by blast
    have "map Number fs \<noteq> [] \<and> (w = 0 \<or> int (length (map Number fs)) < w)"
      using h by simp
    from general [OF this] m s show ?thesis by simp
  qed
  from general floats show ?thesis by blast
qed

theorem degenerate_window_whole_list_witness:
  "[Integer 1, Integer 2, Integer 3] \<noteq> [] \<and> int (length [Integer 1, Integer 2, Integer 3]) < 7
   \<and> py_slice_from [Integer 1, Integer 2, Integer 3] (- 7) = [Integer 1, Integer 2, Integer 3]
   \<and> moving_average [Integer 1, Integer 2, Integer 3] 7 = Inr (Num 2)
   \<and> moving_average [Integer 1, Integer 2, Integer 3] 0 = Inr (Num 2)
   \<and> [Num 1, Num 2, Num 3] \<noteq> [] \<and> int (length [Num 1, Num 2, Num 3]) < 7
   \<and> moving_average (map Number [Num 1, Num 2, Num 3]) 7 = Inr (Num 2)"
  using degenerate_window_whole_list [of "[Integer 1, Integer 2, Integer 3]" 7 "[Num 1, Num 2, Num 3]"]
    degenerate_window_whole_list [of "[Integer 1, Integer 2, Integer 3]" 0 "[Num 1, Num 2, Num 3]"]
  by (simp add: np_mean_def as_floats_def fl_sum_def fl_def overflow_threshold_def)

text \<open>
  C6, as stated, fails on the empty list: numpy does not raise on an empty slice, it
  warns and returns NaN, so there is nothing for the \<^verbatim>\<open>except\<close> clause to replace.
\<close>

theorem empty_window_not_zero:
  "moving_average [] 3 \<noteq> Inr (Num 0) \<and> standard_deviation [] 3 \<noteq> Inr (Num 0)"
  by (simp add: moving_average_def standard_deviation_def py_slice_from_def np_mean_def np_std_def
      as_floats_def)

text \<open>
  C6, amended: \<open>moving_average\<close> and \<open>standard_deviation\<close> never raise; when the window
  holds an element that is not a number, numpy raises and the result is the fallback 0;
  when the window is empty (an empty data list, for one), the result is NaN.
\<close>

theorem window_fallback:
  "(\<exists>v. moving_average data w = Inr v) \<and> (\<exists>v. standard_deviation data w = Inr v)
   \<and> (Text s \<in> set (py_slice_from data (- w)) \<longrightarrow>
        moving_average data w = Inr (Num 0) \<and> standard_deviation data w = Inr (Num 0))
   \<and> (py_slice_from data (- w) = [] \<longrightarrow>
        moving_average data w = Inr NaN \<and> standard_deviation data w = Inr NaN)
   \<and> (data = [] \<longrightarrow> moving_average data w = Inr NaN \<and> standard_deviation data w = Inr NaN)"
proof -
  have "\<exists>v. moving_average data w = Inr v" "\<exists>v. standard_deviation data w = Inr v"
    by (auto simp: moving_average_def standard_deviation_def split: sum.splits)
  moreover have "moving_average data w = Inr (Num 0) \<and> standard_deviation data w = Inr (Num 0)"
    if "Text s \<in> set (py_slice_from data (- w))"
  proof -
    have "as_floats (py_slice_from data (- w)) = Inl TypeError"
      using that by (rule as_floats_text)
    then show ?thesis
      by (simp add: moving_average_def standard_deviation_def np_mean_def np_std_def)
  qed
  moreover have "moving_average data w = Inr NaN \<and> standard_deviation data w = Inr NaN"
    if "py_slice_from data (- w) = []"
    using that
    by (simp add: moving_average_def standard_deviation_def np_mean_def np_std_def as_floats_def)
  moreover have "py_slice_from data (- w) = []" if "data = []"
    using that by (simp add: py_slice_from_def)
  ultimately show ?thesis by blast
qed

theorem window_fallback_witness:
  "Text ''n/a'' \<in> set (py_slice_from [Number (Num 1), Text ''n/a'', Number (Num 2)] (- 2))
   \<and> moving_average [Number (Num 1), Text ''n/a'', Number (Num 2)] 2 = Inr (Num 0)
   \<and> standard_deviation [Number (Num 1), Text ''n/a'', Number (Num 2)] 2 = Inr (Num 0)
   \<and> py_slice_from ([] :: pyitem list) (- 3) = []
   \<and> moving_average [] 3 = Inr NaN \<and> standard_deviation [] 3 = Inr NaN"
  using window_fallback [of "[Number (Num 1), Text ''n/a'', Number (Num 2)]" 2 "''n/a''"]
        window_fallback [of "[]" 3]
  by (simp add: py_slice_from_def)

subsection \<open>One tick of the driver\<close>

lemma update_scored:
  assumes "ws < int (length (data_points g)) + 1"
    and "moving_average (map Number (data_points g @ [dp])) ws = Inr mean"
    and "standard_deviation (map Number (data_points g @ [dp])) ws = Inr sd"
    and "z_score (Number dp) (Number mean) (Number sd) = Inr z"
  shows "table_widget (update ws thr (Yielded dp) g) =
           table_widget g @ [\<lparr>row_time = length (data_points g), row_value = dp,
                               row_z_score = Some z, row_is_anomaly = py_gt (py_abs z) thr\<rparr>]"
    and "anomaly_table_widget (update ws thr (Yielded dp) g) =
           (if py_gt (py_abs z) thr
            then anomaly_table_widget g @
                   [\<lparr>a_time = length (data_points g), a_value = dp, a_z_score = z\<rparr>]
            else anomaly_table_widget g)"
    and "data_points (update ws thr (Yielded dp) g) = data_points g @ [dp]"
  using assms
  by (simp_all add: update_def Let_def add_row_to_table_def add_row_to_anomaly_table_def)

lemma update_collecting:
  assumes "int (length (data_points g)) + 1 \<le> ws"
  shows "table_widget (update ws thr (Yielded dp) g) =
           table_widget g @ [\<lparr>row_time = length (data_points g), row_value = dp,
                               row_z_score = None, row_is_anomaly = False\<rparr>]"
    and "anomaly_table_widget (update ws thr (Yielded dp) g) = anomaly_table_widget g"
    and "anomaly_points (update ws thr (Yielded dp) g) = anomaly_points g"
    and "data_points (update ws thr (Yielded dp) g) = data_points g @ [dp]"
  using assms
  by (simp_all add: update_def Let_def add_row_to_table_def)

lemma update_appends: "data_points (update ws thr (Yielded dp) g) = data_points g @ [dp]"
proof (cases "ws < int (length (data_points g)) + 1")
  case True
  then show ?thesis
    using moving_average_returns standard_deviation_returns z_score_returns update_scored(3)
    by metis
next
  case False
  then show ?thesis by (simp add: update_collecting(4))
qed


lemma trailing_window_has_newest:
  assumes "0 < ws" "ws < int (length xs) + 1"
  shows "length (py_slice_from (xs @ [x]) (- ws)) = nat ws"
    and "last (py_slice_from (xs @ [x]) (- ws)) = x"
    and "x \<in> set (py_slice_from (xs @ [x]) (- ws))"
proof -
  let ?k = "nat (int (length xs) + 1 - ws)"
  have sl: "py_slice_from (xs @ [x]) (- ws) = drop ?k xs @ [x]"
    using assms by (simp add: py_slice_from_def Let_def max_def nat_le_iff add.commute)
  show "length (py_slice_from (xs @ [x]) (- ws)) = nat ws"
    using assms unfolding sl by simp
  show "last (py_slice_from (xs @ [x]) (- ws)) = x"
    unfolding sl by simp
  show "x \<in> set (py_slice_from (xs @ [x]) (- ws))"
    unfolding sl by simp
qed

text \<open>
  C4: at every tick at which a score is computed (the history, with the new point, is
  longer than \<open>window_size\<close>), the row of the main table is flagged, and a row is added
  to the anomaly table, exactly when \<open>abs(z) > z_threshold\<close> for the Z-score \<open>z\<close> of
  that tick; a Z-score whose absolute value equals the threshold is not flagged.
\<close>

theorem anomaly_flag_iff:
  "ws < int (length (data_points g)) + 1 \<longrightarrow>
     (\<exists>mean sd z.
        moving_average (map Number (data_points g @ [dp])) ws = Inr mean
      \<and> standard_deviation (map Number (data_points g @ [dp])) ws = Inr sd
      \<and> z_score (Number dp) (Number mean) (Number sd) = Inr z
      \<and> table_widget (update ws thr (Yielded dp) g) =
          table_widget g @ [\<lparr>row_time = length (data_points g), row_value = dp,
                              row_z_score = Some z, row_is_anomaly = py_gt (py_abs z) thr\<rparr>]
      \<and> anomaly_table_widget (update ws thr (Yielded dp) g) =
          (if py_gt (py_abs z) thr
           then anomaly_table_widget g @
                  [\<lparr>a_time = length (data_points g), a_value = dp, a_z_score = z\<rparr>]
           else anomaly_table_widget g)
      \<and> (py_abs z = thr \<longrightarrow> \<not> py_gt (py_abs z) thr)
      \<and> (\<forall>a t. z = Num a \<and> thr = Num t \<longrightarrow> (py_gt (py_abs z) thr \<longleftrightarrow> t < \<bar>a\<bar>)))"
proof
  assume len: "ws < int (length (data_points g)) + 1"
  obtain mean where m: "moving_average (map Number (data_points g @ [dp])) ws = Inr mean"
    using moving_average_returns by blast
  obtain sd where s: "standard_deviation (map Number (data_points g @ [dp])) ws = Inr sd"
    using standard_deviation_returns by blast
  obtain z where z: "z_score (Number dp) (Number mean) (Number sd) = Inr z"
    using z_score_returns by blast
  have eq: "py_abs z = thr \<longrightarrow> \<not> py_gt (py_abs z) thr"
    by (cases thr) auto
  have real: "\<forall>a t. z = Num a \<and> thr = Num t \<longrightarrow> (py_gt (py_abs z) thr \<longleftrightarrow> t < \<bar>a\<bar>)"
    by auto
  show "\<exists>mean sd z.
        moving_average (map Number (data_points g @ [dp])) ws = Inr mean
      \<and> standard_deviation (map Number (data_points g @ [dp])) ws = Inr sd
      \<and> z_score (Number dp) (Number mean) (Number sd) = Inr z
      \<and> table_widget (update ws thr (Yielded dp) g) =
          table_widget g @ [\<lparr>row_time = length (data_points g), row_value = dp,
                              row_z_score = Some z, row_is_anomaly = py_gt (py_abs z) thr\<rparr>]
      \<and> anomaly_table_widget (update ws thr (Yielded dp) g) =
          (if py_gt (py_abs z) thr
           then anomaly_table_widget g @
                  [\<lparr>a_time = length (data_points g), a_value = dp, a_z_score = z\<rparr>]
           else anomaly_table_widget g)
      \<and> (py_abs z = thr \<longrightarrow> \<not> py_gt (py_abs z) thr)
      \<and> (\<forall>a t. z = Num a \<and> thr = Num t \<longrightarrow> (py_gt (py_abs z) thr \<longleftrightarrow> t < \<bar>a\<bar>))"
    using m s z update_scored(1) [OF len m s z] update_scored(2) [OF len m s z] eq real
    by blast
qed

theorem anomaly_flag_iff_witness:
  "(2 :: int) < int (length (data_points (initial_gui\<lparr>data_points := [Num 0, Num 0]\<rparr>))) + 1
   \<and> z_score (Number (Num 2)) (Number (Num 1)) (Number (Num 1)) = Inr (Num 1)
   \<and> table_widget (update 2 (Num 1) (Yielded (Num 2)) (initial_gui\<lparr>data_points := [Num 0, Num 0]\<rparr>))
       = [\<lparr>row_time = 2, row_value = Num 2, row_z_score = Some (Num 1), row_is_anomaly = False\<rparr>]
   \<and> table_widget (update 2 (Num 0.5) (Yielded (Num 2)) (initial_gui\<lparr>data_points := [Num 0, Num 0]\<rparr>))
       = [\<lparr>row_time = 2, row_value = Num 2, row_z_score = Some (Num 1), row_is_anomaly = True\<rparr>]"
proof -
  let ?g = "initial_gui\<lparr>data_points := [Num 0, Num 0]\<rparr>"
  have m: "moving_average (map Number (data_points ?g @ [Num 2])) 2 = Inr (Num 1)"
    by (simp add: initial_gui_def moving_average_def py_slice_from_def np_mean_def as_floats_def fl_sum_def fl_sub_def fl_def
      overflow_threshold_def Let_def)
  have s: "standard_deviation (map Number (data_points ?g @ [Num 2])) 2 = Inr (Num 1)"
    by (simp add: initial_gui_def standard_deviation_def py_slice_from_def np_std_def as_floats_def fl_sum_def fl_sub_def fl_def
      overflow_threshold_def Let_def)
  have z: "z_score (Number (Num 2)) (Number (Num 1)) (Number (Num 1)) = Inr (Num 1)"
    by (simp add: z_score_floats fl_sub_def fl_def overflow_threshold_def)
  have len: "(2 :: int) < int (length (data_points ?g)) + 1"
    by (simp add: initial_gui_def)
  show ?thesis
    using anomaly_flag_iff [of 2 ?g "Num 2" "Num 1"] anomaly_flag_iff [of 2 ?g "Num 2" "Num 0.5"]
      m s z len
    by (auto simp: initial_gui_def)
qed



text \<open>
  C9: the new data point is appended before the window is taken. For a positive
  \<open>window_size\<close> and a tick that computes a score, the window has \<open>window_size\<close>
  elements, the scored value is its last element, and the Z-score shown is computed from
  the mean and standard deviation of that very window.
\<close>

theorem scored_value_in_own_window:
  "0 < ws \<and> ws < int (length (data_points g)) + 1 \<longrightarrow>
     data_points (update ws thr (Yielded dp) g) = data_points g @ [dp]
     \<and> length (py_slice_from (data_points g @ [dp]) (- ws)) = nat ws
     \<and> last (py_slice_from (data_points g @ [dp]) (- ws)) = dp
     \<and> dp \<in> set (py_slice_from (data_points g @ [dp]) (- ws))
     \<and> (\<exists>mean sd z.
          np_mean (map Number (py_slice_from (data_points g @ [dp]) (- ws))) = Inr mean
        \<and> np_std (map Number (py_slice_from (data_points g @ [dp]) (- ws))) = Inr sd
        \<and> z_score (Number dp) (Number mean) (Number sd) = Inr z
        \<and> row_z_score (last (table_widget (update ws thr (Yielded dp) g))) = Some z
        \<and> row_value (last (table_widget (update ws thr (Yielded dp) g))) = dp)"
proof
  assume a: "0 < ws \<and> ws < int (length (data_points g)) + 1"
  let ?h = "data_points g @ [dp]"
  let ?win = "py_slice_from ?h (- ws)"
  obtain mean where m: "np_mean (map Number ?win) = Inr mean"
    using np_mean_numbers by blast
  obtain sd where s: "np_std (map Number ?win) = Inr sd"
    using np_std_numbers by blast
  obtain z where z: "z_score (Number dp) (Number mean) (Number sd) = Inr z"
    using z_score_returns by blast
  have ma: "moving_average (map Number ?h) ws = Inr mean"
    unfolding moving_average_def py_slice_from_map using m by simp
  have st: "standard_deviation (map Number ?h) ws = Inr sd"
    unfolding standard_deviation_def py_slice_from_map using s by simp
  have len: "ws < int (length (data_points g)) + 1"
    using a by simp
  have row: "row_z_score (last (table_widget (update ws thr (Yielded dp) g))) = Some z
        \<and> row_value (last (table_widget (update ws thr (Yielded dp) g))) = dp"
    using update_scored(1) [OF len ma st z] by simp
  have win: "length ?win = nat ws" "last ?win = dp" "dp \<in> set ?win"
    using a by (simp_all add: trailing_window_has_newest)
  show "data_points (update ws thr (Yielded dp) g) = ?h
     \<and> length ?win = nat ws \<and> last ?win = dp \<and> dp \<in> set ?win
     \<and> (\<exists>mean sd z.
          np_mean (map Number ?win) = Inr mean
        \<and> np_std (map Number ?win) = Inr sd
        \<and> z_score (Number dp) (Number mean) (Number sd) = Inr z
        \<and> row_z_score (last (table_widget (update ws thr (Yielded dp) g))) = Some z
        \<and> row_value (last (table_widget (update ws thr (Yielded dp) g))) = dp)"
    using update_appends m s z row win by blast
qed

theorem scored_value_in_own_window_witness:
  "(0 :: int) < 2 \<and> (2 :: int) < int (length (data_points (initial_gui\<lparr>data_points := [Num 7, Num 0]\<rparr>))) + 1
   \<and> py_slice_from (data_points (initial_gui\<lparr>data_points := [Num 7, Num 0]\<rparr>) @ [Num 2]) (- 2)
       = [Num 0, Num 2]
   \<and> Num 2 \<in> set (py_slice_from (data_points (initial_gui\<lparr>data_points := [Num 7, Num 0]\<rparr>) @ [Num 2]) (- 2))
   \<and> row_z_score (last (table_widget
        (update 2 (Num 3) (Yielded (Num 2)) (initial_gui\<lparr>data_points := [Num 7, Num 0]\<rparr>))))
       = Some (Num 1)"
proof -
  let ?g = "initial_gui\<lparr>data_points := [Num 7, Num 0]\<rparr>"
  have w: "py_slice_from (data_points ?g @ [Num 2]) (- 2) = [Num 0, Num 2]"
    by (simp add: initial_gui_def py_slice_from_def)
  have m: "np_mean (map Number [Num 0, Num 2]) = Inr (Num 1)"
    by (simp add: np_mean_def as_floats_def fl_sum_def fl_sub_def fl_def
      overflow_threshold_def Let_def)
  have s: "np_std (map Number [Num 0, Num 2]) = Inr (Num 1)"
    by (simp add: np_std_def as_floats_def fl_sum_def fl_sub_def fl_def
      overflow_threshold_def Let_def)
  have z: "z_score (Number (Num 2)) (Number (Num 1)) (Number (Num 1)) = Inr (Num 1)"
    by (simp add: z_score_floats fl_sub_def fl_def overflow_threshold_def)
  have len: "(2 :: int) < int (length (data_points ?g)) + 1"
    by (simp add: initial_gui_def)
  show ?thesis
    using scored_value_in_own_window [of 2 ?g "Num 3" "Num 2"] w m s z len
    by auto
qed

subsection \<open>Monotonicity of the anomaly flag\<close>




subsection \<open>Invalid configuration\<close>

text \<open>
  What holds of invalid configuration: the generator made with a non-positive duration or
  interval raises \<^verbatim>\<open>ValueError\<close> when it is first advanced and never yields a
  value, and \<open>detect_anomalies_with_visualization\<close> raises it when called.
\<close>

lemma pull_finished:
  "g_state g = Finished \<Longrightarrow> ev \<in> set (pull n g w) \<Longrightarrow> ev = StopIteration"
  by (induction n arbitrary: w) (auto simp: gen_next_def)

lemma invalid_configuration:
  "(duration \<le> 0 \<or> interval \<le> 0 \<longrightarrow>
      (\<exists>g. simulate_data_stream duration interval = Inr g
          \<and> fst (gen_next g w) = Raised ValueError
          \<and> (\<forall>n. \<forall>ev \<in> set (pull n g w). \<forall>v. ev \<noteq> Yielded v)))
   \<and> (window_size \<le> 0 \<or> py_le z_threshold (Num 0) \<longrightarrow>
        detect_anomalies_with_visualization data_stream window_size z_threshold = Inl ValueError)"
proof -
  have "\<forall>n. \<forall>ev \<in> set (pull n g w). \<forall>v. ev \<noteq> Yielded v"
    if bad: "g_duration g \<le> 0 \<or> g_interval g \<le> 0" and "g_state g = Created" for g
  proof (intro allI ballI)
    fix n ev v
    assume ev: "ev \<in> set (pull n g w)"
    show "ev \<noteq> Yielded v"
    proof (cases n)
      case 0
      with ev show ?thesis by simp
    next
      case (Suc k)
      have "gen_next g w = (Raised ValueError, g\<lparr>g_state := Finished\<rparr>, w)"
        using that by (simp add: gen_next_def)
      with ev Suc have "ev = Raised ValueError \<or> ev \<in> set (pull k (g\<lparr>g_state := Finished\<rparr>) w)"
        by simp
      then show ?thesis
        using pull_finished [of "g\<lparr>g_state := Finished\<rparr>" ev k w] by auto
    qed
  qed
  note no_yield = this
  let ?g = "\<lparr>g_duration = duration, g_interval = interval, g_state = Created\<rparr>"
  have "simulate_data_stream duration interval = Inr ?g
          \<and> fst (gen_next ?g w) = Raised ValueError
          \<and> (\<forall>n. \<forall>ev \<in> set (pull n ?g w). \<forall>v. ev \<noteq> Yielded v)"
    if bad: "duration \<le> 0 \<or> interval \<le> 0"
    using bad no_yield [of ?g] by (simp add: simulate_data_stream_def gen_next_def)
  moreover have "detect_anomalies_with_visualization data_stream window_size z_threshold
        = Inl ValueError"
    if "window_size \<le> 0 \<or> py_le z_threshold (Num 0)"
    using that by (simp add: detect_anomalies_with_visualization_def)
  ultimately show ?thesis by blast
qed

text \<open>
  C5, at \<open>simulate_data_stream(duration=0, interval=1)\<close>: the call does not fail. It
  returns a generator object; the \<^verbatim>\<open>ValueError\<close> is raised only by the first
  \<^verbatim>\<open>next\<close>, and \<open>update\<close>, which makes that call, prints it and goes on.
\<close>

theorem simulate_data_stream_check_deferred:
  "simulate_data_stream 0 1 = Inr \<lparr>g_duration = 0, g_interval = 1, g_state = Created\<rparr>
   \<and> (\<forall>w. gen_next \<lparr>g_duration = 0, g_interval = 1, g_state = Created\<rparr> w
          = (Raised ValueError, \<lparr>g_duration = 0, g_interval = 1, g_state = Finished\<rparr>, w))
   \<and> (\<forall>ws thr g. update ws thr (Raised ValueError) g = g)"
  by (simp add: simulate_data_stream_def gen_next_def update_def)

end
